theory Spec2Isabelle
  imports Complex_Main "HOL-Library.AList" "HOL-Library.Log_Nat" "HOL-Library.Multiset"
begin

section \<open>Error suppression and mitigation: circuit transformers\<close>

text \<open>
  A shallow embedding of \<^verbatim>\<open>circuit_transformers.py\<close>: the folding pass
  \<^verbatim>\<open>Local2qFolding\<close>, the search \<^verbatim>\<open>generate_pauli_twirling_sets\<close>, the
  twirling pass \<^verbatim>\<open>PauliTwirling\<close> and the helper \<^verbatim>\<open>aggregate_data\<close>.
  Python exceptions are values of the type \<open>error\<close>; a function that can raise returns
  \<open>error + 'a\<close>, with \<open>Inl\<close> for the exception.
\<close>

datatype error =
  KeyError | ValueError | ZeroDivisionError | AssertionError | IndexError | DAGCircuitError

subsection \<open>The aggregation helper\<close>







subsection \<open>Python floats\<close>

text \<open>
  The number of gates to fold is computed in double precision, and the result of its
  \<^verbatim>\<open>floor\<close> depends on the rounding. \<open>float64 x\<close> is the double nearest to the real
  \<open>x\<close> (round to nearest, ties to even, 53 significant bits); \<open>fexp x\<close> is the binary
  exponent of \<open>x\<close>. Overflow and subnormal numbers are out of the range of the values the
  pass computes and are not modelled.
\<close>

definition fexp :: "real \<Rightarrow> int" where
  "fexp x = (if 1 \<le> \<bar>x\<bar> then int (floorlog 2 (nat \<lfloor>\<bar>x\<bar>\<rfloor>)) - 1
             else - int (floorlog 2 (nat (\<lceil>1 / \<bar>x\<bar>\<rceil> - 1))))"

definition round_half_even :: "real \<Rightarrow> int" where
  "round_half_even q =
     (let f = \<lfloor>q\<rfloor>; r = q - of_int f
      in if r < 1 / 2 then f else if 1 / 2 < r then f + 1 else if even f then f else f + 1)"

definition float64 :: "real \<Rightarrow> real" where
  "float64 x = (if x = 0 then 0
                else of_int (round_half_even (x / 2 powi (fexp x - 52))) * 2 powi (fexp x - 52))"

text \<open>
  A Python number is held as the decimal number that \<^verbatim>\<open>str\<close> prints for it, which is
  what \<^verbatim>\<open>Decimal(str(x))\<close> reads back; its value as a float is \<open>float64\<close> of that
  decimal. Python prints a float with a whole value as that whole number, so the decimal of
  a number whose float is whole is the float itself.
\<close>

definition printed_number :: "real \<Rightarrow> bool" where
  "printed_number x = (float64 x \<in> \<int> \<longrightarrow> x = float64 x)"

subsection \<open>The circuit graph\<close>

text \<open>
  The circuit graph is Qiskit's \<^verbatim>\<open>DAGCircuit\<close>, a library type. It is modelled by what
  the passes use of it: the operation nodes in wire order, each with an identity, a gate
  and its qubits; the number of qubits; the global phase, kept modulo \<open>2\<pi>\<close> by its setter;
  and the next unused node identity. Gates carry no classical condition.
\<close>

datatype gate = IGate | ZGate | XGate | YGate | CXGate | CZGate | ECRGate | OtherGate string

fun gate_name :: "gate \<Rightarrow> string" where
  "gate_name IGate = ''id''"
| "gate_name ZGate = ''z''"
| "gate_name XGate = ''x''"
| "gate_name YGate = ''y''"
| "gate_name CXGate = ''cx''"
| "gate_name CZGate = ''cz''"
| "gate_name ECRGate = ''ecr''"
| "gate_name (OtherGate s) = s"

record op_node =
  node_id :: nat
  op :: gate
  qargs :: "nat list"

record dag_circuit =
  op_nodes :: "op_node list"
  qubits :: nat
  global_phase :: real
  next_id :: nat

definition normalize_angle :: "real \<Rightarrow> real" where
  \<comment> \<open>the setter of \<^verbatim>\<open>global_phase\<close>: \<^verbatim>\<open>0 if not angle else angle % (2 * pi)\<close>\<close>
  "normalize_angle a = (if a = 0 then 0 else a - 2 * pi * of_int \<lfloor>a / (2 * pi)\<rfloor>)"

definition DAGCircuit :: dag_circuit where
  "DAGCircuit = \<lparr>op_nodes = [], qubits = 0, global_phase = 0, next_id = 0\<rparr>"

definition add_qreg :: "dag_circuit \<Rightarrow> nat \<Rightarrow> dag_circuit" where
  "add_qreg d n = d\<lparr>qubits := qubits d + n\<rparr>"

definition apply_operation_back :: "dag_circuit \<Rightarrow> gate \<Rightarrow> nat list \<Rightarrow> dag_circuit" where
  "apply_operation_back d g qs =
     d\<lparr>op_nodes := op_nodes d @ [\<lparr>node_id = next_id d, op = g, qargs = qs\<rparr>],
       next_id := Suc (next_id d)\<rparr>"

definition add_global_phase :: "dag_circuit \<Rightarrow> real \<Rightarrow> dag_circuit" where
  \<comment> \<open>\<^verbatim>\<open>dag.global_phase += a\<close>\<close>
  "add_global_phase d a = d\<lparr>global_phase := normalize_angle (global_phase d + a)\<rparr>"

definition count_ops :: "dag_circuit \<Rightarrow> string \<Rightarrow> nat option" where
  \<comment> \<open>the dict of \<^verbatim>\<open>count_ops()\<close>: a name with no node is not a key\<close>
  "count_ops d nm =
     (let c = length (filter (\<lambda>n. gate_name (op n) = nm) (op_nodes d))
      in if c = 0 then None else Some c)"

fun collect :: "(op_node \<Rightarrow> bool) \<Rightarrow> op_node list \<Rightarrow> op_node list \<Rightarrow> op_node list list" where
  "collect P cur [] = (if cur = [] then [] else [cur])"
| "collect P cur (n # ns) =
     (if P n then collect P (cur @ [n]) ns
      else (if cur = [] then [] else [cur]) @ collect P [] ns)"

definition collect_runs :: "dag_circuit \<Rightarrow> string list \<Rightarrow> op_node list list" where
  \<comment> \<open>the runs of adjacent nodes with a name of the list, in encounter order\<close>
  "collect_runs d namelist = collect (\<lambda>n. gate_name (op n) \<in> set namelist) [] (op_nodes d)"

definition spliced :: "nat \<Rightarrow> op_node \<Rightarrow> op_node list \<Rightarrow> op_node list" where
  \<comment> \<open>the nodes of a replacement graph, on the wires of the node they replace\<close>
  "spliced first_id n subs =
     map (\<lambda>(i, s). \<lparr>node_id = first_id + i, op = op s, qargs = map (\<lambda>w. qargs n ! w) (qargs s)\<rparr>)
       (enumerate 0 subs)"

definition substitute_node_with_dag ::
  "dag_circuit \<Rightarrow> op_node \<Rightarrow> dag_circuit \<Rightarrow> error + dag_circuit" where
  \<comment> \<open>fails for a node that is not in the graph and for a replacement with another number
      of wires than the node\<close>
  "substitute_node_with_dag d n input_dag =
     (if node_id n \<notin> set (map node_id (op_nodes d)) then Inl DAGCircuitError
      else if qubits input_dag \<noteq> length (qargs n) then Inl DAGCircuitError
      else Inr (d\<lparr>op_nodes :=
                     concat (map (\<lambda>m. if node_id m = node_id n
                                       then spliced (next_id d) n (op_nodes input_dag) else [m])
                               (op_nodes d)),
                   global_phase := normalize_angle (global_phase d + global_phase input_dag),
                   next_id := next_id d + length (op_nodes input_dag)\<rparr>))"

fun for_each :: "('a \<Rightarrow> 'st \<Rightarrow> error + 'st) \<Rightarrow> 'a list \<Rightarrow> 'st \<Rightarrow> error + 'st" where
  \<comment> \<open>a \<^verbatim>\<open>for\<close> loop whose body updates a state and may raise\<close>
  "for_each body [] st = Inr st"
| "for_each body (x # xs) st =
     (case body x st of Inl e \<Rightarrow> Inl e | Inr st' \<Rightarrow> for_each body xs st')"



type_synonym instr = "gate \<times> nat list"

definition instr_of :: "op_node \<Rightarrow> instr" where
  "instr_of n = (op n, qargs n)"

subsection \<open>The legacy NumPy generator\<close>

text \<open>
  \<^verbatim>\<open>np.random.choice(a, size, replace=False)\<close> takes the first \<open>size\<close> entries of a
  permutation of \<open>0, \<dots>, a - 1\<close>, which the generator shuffles from the last position
  down. The generator is a state \<open>'g\<close> with \<open>ri g m\<close>, the library's bounded draw: a
  number in \<open>[0, m]\<close> and the next state.
\<close>

fun shuffle_raw :: "('g \<Rightarrow> nat \<Rightarrow> nat \<times> 'g) \<Rightarrow> nat \<Rightarrow> nat list \<Rightarrow> 'g \<Rightarrow> nat list \<times> 'g" where
  "shuffle_raw ri 0 xs g = (xs, g)"
| "shuffle_raw ri (Suc i) xs g =
     (let (j, g') = ri g (Suc i)
      in shuffle_raw ri i (xs[Suc i := xs ! j, j := xs ! Suc i]) g')"

definition permutation :: "('g \<Rightarrow> nat \<Rightarrow> nat \<times> 'g) \<Rightarrow> nat \<Rightarrow> 'g \<Rightarrow> nat list \<times> 'g" where
  "permutation ri n g = shuffle_raw ri (n - 1) [0..<n] g"

definition choice_without_replacement ::
  "('g \<Rightarrow> nat \<Rightarrow> nat \<times> 'g) \<Rightarrow> nat \<Rightarrow> int \<Rightarrow> 'g \<Rightarrow> error + nat list \<times> 'g" where
  "choice_without_replacement ri a sz g =
     (if a = 0 \<and> sz \<noteq> 0 then Inl ValueError
      else if int a < sz then Inl ValueError
      else if sz < 0 then Inl ValueError
      else (let (idx, g') = permutation ri a g in Inr (take (nat sz) idx, g')))"


subsection \<open>The folding pass\<close>

record Local2qFolding =
  scale_factor :: real
  folding_gate :: string

definition next_odd_if_not_odd :: "real \<Rightarrow> int" where
  \<comment> \<open>\<^verbatim>\<open>int(np.ceil(value) // 2 * 2 + 1)\<close>, exact on whole floats\<close>
  "next_odd_if_not_odd v = \<lceil>v\<rceil> div 2 * 2 + 1"

definition num_2q_gates_to_be_folded :: "nat \<Rightarrow> real \<Rightarrow> int \<Rightarrow> error + int" where
  \<comment> \<open>The two differences are decimal and exact; the conversions to float, the product and
      the quotient round.\<close>
  "num_2q_gates_to_be_folded num_2q_gates sf odd_fold_factor =
     (let x = float64 (sf - 1);
          p = float64 (float64 (of_nat num_2q_gates) * x);
          y = float64 (of_int odd_fold_factor - 1)
      in if y = 0 then Inl ZeroDivisionError else Inr \<lfloor>float64 (p / y)\<rfloor>)"

definition get_2q_gate_indices_to_be_folded ::
  "('g \<Rightarrow> nat \<Rightarrow> nat \<times> 'g) \<Rightarrow> 'g \<Rightarrow> nat \<Rightarrow> real \<Rightarrow> int \<Rightarrow> error + nat list \<times> 'g" where
  "get_2q_gate_indices_to_be_folded ri g num_2q_gates sf odd_fold_factor =
     (case num_2q_gates_to_be_folded num_2q_gates sf odd_fold_factor of
        Inl e \<Rightarrow> Inl e
      | Inr k \<Rightarrow> choice_without_replacement ri num_2q_gates k g)"

definition fold_dag_of :: "gate \<Rightarrow> nat \<Rightarrow> dag_circuit" where
  "fold_dag_of g fold_factor =
     ((\<lambda>fd. apply_operation_back fd g [0, 1]) ^^ fold_factor) (add_qreg DAGCircuit 2)"

definition fold_node ::
  "int \<Rightarrow> nat list \<Rightarrow> op_node \<Rightarrow> dag_circuit \<times> nat \<Rightarrow> error + dag_circuit \<times> nat" where
  "fold_node odd_fold_factor folding_gate_indices n = (\<lambda>(d, idx).
     (let fold_factor = (if idx \<in> set folding_gate_indices then odd_fold_factor else 1);
          fold_dag = fold_dag_of (op n) (nat fold_factor)
      in case substitute_node_with_dag d n fold_dag of
           Inl e \<Rightarrow> Inl e
         | Inr d' \<Rightarrow> Inr (d', idx + 1)))"

definition Local2qFolding_run ::
  "('g \<Rightarrow> nat \<Rightarrow> nat \<times> 'g) \<Rightarrow> Local2qFolding \<Rightarrow> dag_circuit \<Rightarrow> 'g \<Rightarrow> error + dag_circuit \<times> 'g" where
  \<comment> \<open>\<open>g\<close> is the state of NumPy's global generator, returned as the pass leaves it\<close>
  "Local2qFolding_run ri self d g =
     (if float64 (scale_factor self) = 1 then Inr (d, g)
      else case count_ops d (folding_gate self) of
             None \<Rightarrow> Inl KeyError
           | Some num_2q_gates \<Rightarrow>
               (let odd_fold_factor = next_odd_if_not_odd (float64 (scale_factor self))
                in case get_2q_gate_indices_to_be_folded ri g num_2q_gates
                          (scale_factor self) odd_fold_factor of
                     Inl e \<Rightarrow> Inl e
                   | Inr (folding_gate_indices, g') \<Rightarrow>
                       (case for_each (for_each (fold_node odd_fold_factor folding_gate_indices))
                               (collect_runs d [folding_gate self]) (d, 0) of
                          Inl e \<Rightarrow> Inl e
                        | Inr (d', idx) \<Rightarrow> Inr (d', g'))))"


subsection \<open>The twirl equivalence search\<close>

text \<open>
  Matrices are lists of rows of complex numbers, in exact arithmetic. The gate matrices are
  those of Qiskit's gate library, in its qubit order: qubit 0 is the least significant, so
  a gate on qubit 0 of two is \<open>I \<otimes> G\<close> and a gate on qubit 1 is \<open>G \<otimes> I\<close>.
\<close>

type_synonym cvec = "complex list"
type_synonym cmat = "complex list list"

definition smult :: "complex \<Rightarrow> cmat \<Rightarrow> cmat" where
  "smult c A = map (map ((*) c)) A"

definition mat_sub :: "cmat \<Rightarrow> cmat \<Rightarrow> cmat" where
  "mat_sub A B = map2 (map2 (-)) A B"

definition row_times :: "cvec \<Rightarrow> cmat \<Rightarrow> cvec" where
  "row_times r B = map (\<lambda>col. sum_list (map2 (*) r col)) (transpose B)"

definition mat_mul :: "cmat \<Rightarrow> cmat \<Rightarrow> cmat" where
  "mat_mul A B = map (\<lambda>r. row_times r B) A"

definition kron :: "cmat \<Rightarrow> cmat \<Rightarrow> cmat" where
  "kron A B = concat (map (\<lambda>ra. map (\<lambda>rb. concat (map (\<lambda>a. map ((*) a) rb) ra)) B) A)"

definition frobenius_norm :: "cmat \<Rightarrow> real" where
  \<comment> \<open>\<^verbatim>\<open>np.linalg.norm\<close> of a matrix\<close>
  "frobenius_norm A = sqrt (sum_list (map (\<lambda>r. sum_list (map (\<lambda>z. (cmod z)\<^sup>2) r)) A))"

definition allclose :: "cmat \<Rightarrow> cmat \<Rightarrow> bool" where
  \<comment> \<open>the equality of two \<^verbatim>\<open>Operator\<close>s: entrywise, within \<open>atol + rtol * |b|\<close>\<close>
  "allclose A B = (length A = length B \<and>
     list_all (\<lambda>(ra, rb). length ra = length rb \<and>
        list_all (\<lambda>(a, b). cmod (a - b) \<le> 1 / 10 ^ 8 + 1 / 10 ^ 5 * cmod b) (zip ra rb)) (zip A B))"

fun to_matrix :: "gate \<Rightarrow> cmat" where
  "to_matrix IGate = [[1, 0], [0, 1]]"
| "to_matrix ZGate = [[1, 0], [0, - 1]]"
| "to_matrix XGate = [[0, 1], [1, 0]]"
| "to_matrix YGate = [[0, - \<i>], [\<i>, 0]]"
| "to_matrix CXGate = [[1, 0, 0, 0], [0, 0, 0, 1], [0, 0, 1, 0], [0, 1, 0, 0]]"
| "to_matrix CZGate = [[1, 0, 0, 0], [0, 1, 0, 0], [0, 0, 1, 0], [0, 0, 0, - 1]]"
| "to_matrix ECRGate = smult (complex_of_real (sqrt (1 / 2)))
     [[0, 1, 0, \<i>], [1, 0, - \<i>, 0], [0, \<i>, 0, 1], [- \<i>, 0, 1, 0]]"
| "to_matrix (OtherGate s) = []"

record quantum_circuit =
  qc_data :: "(gate \<times> nat list) list"
  qc_global_phase :: real

definition QuantumCircuit2 :: quantum_circuit where
  \<comment> \<open>\<^verbatim>\<open>QuantumCircuit(2)\<close>\<close>
  "QuantumCircuit2 = \<lparr>qc_data = [], qc_global_phase = 0\<rparr>"

definition append_gate :: "quantum_circuit \<Rightarrow> gate \<Rightarrow> nat list \<Rightarrow> quantum_circuit" where
  "append_gate qc g qs = qc\<lparr>qc_data := qc_data qc @ [(g, qs)]\<rparr>"

definition identity4 :: cmat where
  "identity4 = [[1, 0, 0, 0], [0, 1, 0, 0], [0, 0, 1, 0], [0, 0, 0, 1]]"

definition instruction_matrix :: "gate \<times> nat list \<Rightarrow> cmat" where
  \<comment> \<open>the matrix of one instruction of a two-qubit circuit, for the three placements the
      search uses\<close>
  "instruction_matrix ins =
     (case ins of (g, qs) \<Rightarrow>
        if qs = [0] then kron (to_matrix IGate) (to_matrix g)
        else if qs = [1] then kron (to_matrix g) (to_matrix IGate)
        else if qs = [0, 1] then to_matrix g
        else [])"

definition from_circuit :: "quantum_circuit \<Rightarrow> cmat" where
  \<comment> \<open>\<^verbatim>\<open>Operator.from_circuit\<close>: later instructions multiply from the left\<close>
  "from_circuit qc =
     smult (cis (qc_global_phase qc))
       (foldl (\<lambda>U ins. mat_mul (instruction_matrix ins) U) identity4 (qc_data qc))"

type_synonym twirl_set = "(gate \<times> gate \<times> gate \<times> gate) \<times> real"

definition twirled_circuit :: "gate \<Rightarrow> gate \<times> gate \<times> gate \<times> gate \<Rightarrow> quantum_circuit" where
  "twirled_circuit two_qubit_gate gates =
     (case gates of (g0, g1, g2, g3) \<Rightarrow>
        append_gate (append_gate (append_gate (append_gate (append_gate QuantumCircuit2
          g0 [0]) g1 [1]) two_qubit_gate [0, 1]) g2 [0]) g3 [1])"

definition phase_of_norm :: "real \<Rightarrow> real option" where
  "phase_of_norm nrm =
     (if \<bar>nrm\<bar> < 1 / 10 ^ 15 then Some 0
      else if \<bar>nrm - 4\<bar> < 1 / 10 ^ 15 then Some pi
      else None)"

definition twirl_step ::
  "gate \<Rightarrow> cmat \<Rightarrow> gate \<times> gate \<times> gate \<times> gate \<Rightarrow> twirl_set list \<Rightarrow> error + twirl_set list" where
  \<comment> \<open>the body of the search loop, with its \<^verbatim>\<open>assert\<close>\<close>
  "twirl_step two_qubit_gate target_unitary gates twirling_sets =
     (let qc = twirled_circuit two_qubit_gate gates;
          nrm = frobenius_norm (mat_sub (from_circuit qc) target_unitary)
      in case phase_of_norm nrm of
           None \<Rightarrow> Inr twirling_sets
         | Some phase \<Rightarrow>
             (let qc' = qc\<lparr>qc_global_phase := normalize_angle (qc_global_phase qc + phase)\<rparr>
              in if \<not> allclose (from_circuit qc') target_unitary then Inl AssertionError
                 else if (gates, phase) \<in> set twirling_sets then Inr twirling_sets
                 else Inr (twirling_sets @ [(gates, phase)])))"

definition operator_list :: "gate list" where
  "operator_list = [IGate, ZGate, XGate, YGate]"

definition two_qubit_gates :: "(string \<times> gate) list" where
  "two_qubit_gates = [(''cx'', CXGate), (''cz'', CZGate), (''ecr'', ECRGate)]"

definition generate_pauli_twirling_sets :: "string \<Rightarrow> error + twirl_set list" where
  "generate_pauli_twirling_sets nm =
     (case map_of two_qubit_gates nm of
        None \<Rightarrow> Inl KeyError
      | Some two_qubit_gate \<Rightarrow>
          for_each (twirl_step two_qubit_gate (to_matrix two_qubit_gate))
            [(g0, g1, g2, g3). g0 \<leftarrow> operator_list, g1 \<leftarrow> operator_list,
                               g2 \<leftarrow> operator_list, g3 \<leftarrow> operator_list] [])"

text \<open>
  The words of the specification: an entry is an equivalence when its phase is \<open>0\<close> or
  \<open>\<pi>\<close> and the matrix of its five-gate sequence, multiplied by \<open>e\<^sup>i\<^sup>\<phi>\<close>, is the matrix
  of the gate.
\<close>

definition equivalence_entry :: "gate \<Rightarrow> twirl_set \<Rightarrow> bool" where
  "equivalence_entry g e =
     (case e of (gates, phase) \<Rightarrow>
        (phase = 0 \<or> phase = pi) \<and>
        smult (cis phase) (from_circuit (twirled_circuit g gates)) = to_matrix g)"

subsection \<open>The twirling pass\<close>

text \<open>
  The generator of the pass is a state \<open>'g\<close> with \<open>rb g m\<close>, the library's bounded draw in
  \<open>[0, m]\<close>; \<open>seeded\<close> makes the state of a seed, and a pass built with no seed takes its
  seed from the entropy of the operating system.
\<close>

record 'g PauliTwirling =
  twirling_gate :: string
  twirling_set :: "twirl_set list"
  twirling_len :: nat
  rng :: 'g

definition default_rng :: "(nat \<Rightarrow> 'g) \<Rightarrow> nat option \<Rightarrow> nat \<Rightarrow> 'g" where
  "default_rng seeded seed entropy = seeded (case seed of None \<Rightarrow> entropy | Some s \<Rightarrow> s)"

definition PauliTwirling_init ::
  "(nat \<Rightarrow> 'g) \<Rightarrow> string \<Rightarrow> nat option \<Rightarrow> nat \<Rightarrow> error + 'g PauliTwirling" where
  "PauliTwirling_init seeded gate_nm seed entropy =
     (case generate_pauli_twirling_sets gate_nm of
        Inl e \<Rightarrow> Inl e
      | Inr ts \<Rightarrow> Inr \<lparr>twirling_gate = gate_nm, twirling_set = ts,
                        twirling_len = length ts, rng = default_rng seeded seed entropy\<rparr>)"

definition integers :: "('g \<Rightarrow> nat \<Rightarrow> nat \<times> 'g) \<Rightarrow> 'g \<Rightarrow> nat \<Rightarrow> nat \<Rightarrow> error + nat \<times> 'g" where
  \<comment> \<open>\<^verbatim>\<open>rng.integers(low, high)\<close>, \<open>high\<close> excluded\<close>
  "integers rb g low high =
     (if high \<le> low then Inl ValueError
      else (let (v, g') = rb g (high - low - 1) in Inr (low + v, g')))"

definition twirl_dag_of :: "gate \<Rightarrow> gate \<times> gate \<times> gate \<times> gate \<Rightarrow> real \<Rightarrow> dag_circuit" where
  "twirl_dag_of g twirl_gates twirl_phase =
     (case twirl_gates of (g0, g1, g2, g3) \<Rightarrow>
        add_global_phase
          (apply_operation_back (apply_operation_back (apply_operation_back
            (apply_operation_back (apply_operation_back (add_qreg DAGCircuit 2)
              g0 [0]) g1 [1]) g [0, 1]) g2 [0]) g3 [1])
          twirl_phase)"

definition twirl_node ::
  "('g \<Rightarrow> nat \<Rightarrow> nat \<times> 'g) \<Rightarrow> 'g PauliTwirling \<Rightarrow> op_node \<Rightarrow> dag_circuit \<times> 'g \<Rightarrow>
   error + dag_circuit \<times> 'g" where
  "twirl_node rb self n = (\<lambda>(d, g).
     case integers rb g 0 (twirling_len self) of
       Inl e \<Rightarrow> Inl e
     | Inr (twirl_idx, g') \<Rightarrow>
         if length (twirling_set self) \<le> twirl_idx then Inl IndexError
         else (let (twirl_gates, twirl_phase) = twirling_set self ! twirl_idx;
                   twirl_dag = twirl_dag_of (op n) twirl_gates twirl_phase
               in case substitute_node_with_dag d n twirl_dag of
                    Inl e \<Rightarrow> Inl e
                  | Inr d' \<Rightarrow> Inr (d', g')))"

definition PauliTwirling_run ::
  "('g \<Rightarrow> nat \<Rightarrow> nat \<times> 'g) \<Rightarrow> 'g PauliTwirling \<Rightarrow> dag_circuit \<Rightarrow>
   error + dag_circuit \<times> 'g PauliTwirling" where
  \<comment> \<open>returns the graph and the pass, whose generator has advanced\<close>
  "PauliTwirling_run rb self d =
     (case for_each (for_each (twirl_node rb self)) (collect_runs d [twirling_gate self])
             (d, rng self) of
        Inl e \<Rightarrow> Inl e
      | Inr (d', g') \<Rightarrow> Inr (d', self\<lparr>rng := g'\<rparr>))"



subsection \<open>An example circuit\<close>

text \<open>A three-qubit circuit with three CX gates, and a bounded draw, for the examples.\<close>

definition example_dag :: dag_circuit where
  "example_dag =
     \<lparr>op_nodes = [\<lparr>node_id = 0, op = XGate, qargs = [0]\<rparr>,
                  \<lparr>node_id = 1, op = CXGate, qargs = [0, 1]\<rparr>,
                  \<lparr>node_id = 2, op = CXGate, qargs = [1, 2]\<rparr>,
                  \<lparr>node_id = 3, op = ZGate, qargs = [2]\<rparr>,
                  \<lparr>node_id = 4, op = CXGate, qargs = [2, 0]\<rparr>],
      qubits = 3, global_phase = 0, next_id = 5\<rparr>"

definition example_draw :: "nat \<Rightarrow> nat \<Rightarrow> nat \<times> nat" where
  "example_draw g m = ((g + 1) mod (m + 1), g + 3)"

section \<open>Properties\<close>

subsection \<open>The aggregation helper\<close>









subsection \<open>Python floats\<close>

lemma fexp_bounds:
  assumes "x \<noteq> 0"
  shows "2 powi fexp x \<le> \<bar>x\<bar>" and "\<bar>x\<bar> < 2 powi (fexp x + 1)"
proof -
  show "2 powi fexp x \<le> \<bar>x\<bar>"
  proof (cases "1 \<le> \<bar>x\<bar>")
    case True
    define n where "n = nat \<lfloor>\<bar>x\<bar>\<rfloor>"
    have n: "0 < n" "real n \<le> \<bar>x\<bar>" using True by (auto simp: n_def) 
    have fl0: "0 < floorlog 2 n" using n by (simp add: floorlog_def)
    have "(2::nat) ^ (floorlog 2 n - 1) \<le> n" using floorlog_bounds[of n 2] n by simp
    then have "real ((2::nat) ^ (floorlog 2 n - 1)) \<le> real n" by (rule of_nat_mono)
    moreover have "real ((2::nat) ^ (floorlog 2 n - 1)) = 2 ^ (floorlog 2 n - 1)" by simp
    ultimately have "(2::real) ^ (floorlog 2 n - 1) \<le> \<bar>x\<bar>" using n(2) by linarith
    moreover have "fexp x = int (floorlog 2 n - 1)" using True fl0 by (simp add: fexp_def n_def)
    ultimately show ?thesis by simp
  next
    case False
    define a where "a = nat (\<lceil>1 / \<bar>x\<bar>\<rceil> - 1)"
    have x: "0 < \<bar>x\<bar>" "\<bar>x\<bar> < 1" using False assms by auto
    have y: "1 < 1 / \<bar>x\<bar>" using x by simp
    then have c: "2 \<le> \<lceil>1 / \<bar>x\<bar>\<rceil>" by linarith
    then have a: "0 < a" "int a = \<lceil>1 / \<bar>x\<bar>\<rceil> - 1" by (auto simp: a_def)
    have "a < 2 ^ floorlog 2 a" using floorlog_bounds[of a 2] a by simp
    then have "int a < 2 ^ floorlog 2 a" by (metis of_nat_less_iff of_nat_numeral of_nat_power)
    then have "\<lceil>1 / \<bar>x\<bar>\<rceil> \<le> 2 ^ floorlog 2 a" using a by linarith
    then have "1 / \<bar>x\<bar> \<le> 2 ^ floorlog 2 a"
      by (metis ceiling_le_iff of_int_numeral of_int_power)
    then have "1 / 2 ^ floorlog 2 a \<le> \<bar>x\<bar>" using x
      by (simp add: field_simps)
    moreover have "fexp x = - int (floorlog 2 a)" using False by (simp add: fexp_def a_def)
    ultimately show ?thesis by (simp add: power_int_minus field_simps)
  qed
  show "\<bar>x\<bar> < 2 powi (fexp x + 1)"
  proof (cases "1 \<le> \<bar>x\<bar>")
    case True
    define n where "n = nat \<lfloor>\<bar>x\<bar>\<rfloor>"
    have n: "0 < n" "\<bar>x\<bar> < real n + 1" using True by (auto simp: n_def)
    have fl0: "0 < floorlog 2 n" using n by (simp add: floorlog_def)
    have "n < 2 ^ floorlog 2 n" using floorlog_bounds[of n 2] n by simp
    then have "n + 1 \<le> 2 ^ floorlog 2 n" by simp
    then have "real (n + 1) \<le> real (2 ^ floorlog 2 n)" by (rule of_nat_mono)
    moreover have "real (2 ^ floorlog 2 n) = 2 ^ floorlog 2 n" by simp
    moreover have "real (n + 1) = real n + 1" by simp
    ultimately have "\<bar>x\<bar> < 2 ^ floorlog 2 n" using n(2) by linarith
    moreover have "fexp x + 1 = int (floorlog 2 n)" using True fl0 by (simp add: fexp_def n_def)
    ultimately show ?thesis by simp
  next
    case False
    define a where "a = nat (\<lceil>1 / \<bar>x\<bar>\<rceil> - 1)"
    have x: "0 < \<bar>x\<bar>" "\<bar>x\<bar> < 1" using False assms by auto
    have y: "1 < 1 / \<bar>x\<bar>" using x by simp
    then have c: "2 \<le> \<lceil>1 / \<bar>x\<bar>\<rceil>" by linarith
    then have a: "0 < a" "int a = \<lceil>1 / \<bar>x\<bar>\<rceil> - 1" by (auto simp: a_def)
    have fl0: "0 < floorlog 2 a" using a by (simp add: floorlog_def)
    have "(2::nat) ^ (floorlog 2 a - 1) \<le> a" using floorlog_bounds[of a 2] a by simp
    then have "real ((2::nat) ^ (floorlog 2 a - 1)) \<le> real a" by (rule of_nat_mono)
    moreover have "real a < 1 / \<bar>x\<bar>" using a by linarith
    moreover have "real ((2::nat) ^ (floorlog 2 a - 1)) = 2 ^ (floorlog 2 a - 1)" by simp
    ultimately have "2 ^ (floorlog 2 a - 1) < 1 / \<bar>x\<bar>" by linarith
    then have "\<bar>x\<bar> < 1 / 2 ^ (floorlog 2 a - 1)" using x by (simp add: field_simps)
    moreover have "fexp x + 1 = - int (floorlog 2 a - 1)" using False fl0 by (simp add: fexp_def a_def)
    ultimately show ?thesis by (simp add: power_int_minus field_simps)
  qed
qed

lemma fexp_unique:
  assumes "2 powi e \<le> \<bar>x\<bar>" "\<bar>x\<bar> < 2 powi (e + 1)"
  shows "fexp x = e"
proof -
  have "(0::real) < 2 powi e" by simp
  with assms(1) have "0 < \<bar>x\<bar>" by linarith
  then have x: "x \<noteq> 0" by simp
  note b = fexp_bounds[OF x]
  have "2 powi e < (2::real) powi (fexp x + 1)" using assms(1) b(2) by linarith
  then have 1: "e < fexp x + 1"
    by (metis linorder_not_less one_le_numeral power_int_increasing)
  have "2 powi fexp x < (2::real) powi (e + 1)" using assms(2) b(1) by linarith
  then have 2: "fexp x < e + 1"
    by (metis linorder_not_less one_le_numeral power_int_increasing)
  show ?thesis using 1 2 by simp
qed

lemma round_half_even_of_int [simp]: "round_half_even (of_int n) = n"
  by (simp add: round_half_even_def)


lemma float64_eval:
  assumes "2 powi e \<le> \<bar>x\<bar>" "\<bar>x\<bar> < 2 powi (e + 1)"
  shows "float64 x = of_int (round_half_even (x / 2 powi (e - 52))) * 2 powi (e - 52)"
proof -
  have "(0::real) < 2 powi e" by simp
  with assms(1) have "0 < \<bar>x\<bar>" by linarith
  then have "x \<noteq> 0" by simp
  then show ?thesis using fexp_unique[OF assms] by (simp add: float64_def)
qed





lemma float64_of_nat:
  assumes "n \<le> 2 ^ 53"
  shows "float64 (of_nat n) = of_nat n"
proof (cases "n = 0")
  case True
  then show ?thesis by (simp add: float64_def)
next
  case False
  define x :: real where "x = of_nat n"
  define e where "e = fexp x"
  have x: "0 < x" "x \<le> 2 ^ 53" using False assms by (simp_all add: x_def)
  have b: "2 powi e \<le> x" using fexp_bounds(1)[of x] x by (simp add: e_def)
  then have "(2::real) powi e \<le> 2 powi 53" using x by simp
  then have e: "e \<le> 53" by (metis linorder_not_less one_less_numeral_iff power_int_strict_increasing semiring_norm(76) not_le)
  show ?thesis
  proof (cases "e = 53")
    case True
    then have "x = 2 ^ 53" using b x by simp
    then have "x / 2 powi (e - 52) = of_int (2 ^ 52)" using True by simp
    then have "round_half_even (x / 2 powi (e - 52)) = 2 ^ 52" by (simp only: round_half_even_of_int)
    then show ?thesis using x True \<open>x = 2 ^ 53\<close> unfolding float64_def x_def[symmetric] e_def[symmetric] by simp
  next
    case False
    then have k: "0 \<le> 52 - e" using e by simp
    have "x / 2 powi (e - 52) = x * 2 powi (52 - e)"
      by (simp add: power_int_diff field_simps)
    also have "\<dots> = of_int (int n * 2 ^ nat (52 - e))" using k by (simp add: x_def power_int_def)
    finally have "round_half_even (x / 2 powi (e - 52)) = int n * 2 ^ nat (52 - e)"
      by (simp only: round_half_even_of_int)
    then have "float64 x = x * 2 powi (52 - e) * 2 powi (e - 52)"
      using x k unfolding float64_def e_def[symmetric] by (simp add: x_def power_int_def)
    also have "\<dots> = x" by (simp add: power_int_diff)
    finally show ?thesis by (simp add: x_def)
  qed
qed




lemma float64_one [simp]: "float64 1 = 1"
  using float64_of_nat[of 1] by simp





subsection \<open>Selection without replacement\<close>





subsection \<open>The circuit graph\<close>


lemma normalize_angle_range: "0 \<le> normalize_angle a \<and> normalize_angle a < 2 * pi"
proof (cases "a = 0")
  case True
  then show ?thesis by (simp add: normalize_angle_def)
next
  case False
  define q where "q = a / (2 * pi)"
  have a: "a = 2 * pi * q" by (simp add: q_def)
  have fl: "of_int \<lfloor>q\<rfloor> \<le> q" "q < of_int \<lfloor>q\<rfloor> + 1" by linarith+
  have p2: "0 < 2 * pi" by simp
  have "0 \<le> 2 * pi * (q - of_int \<lfloor>q\<rfloor>)"
    using fl(1) p2 by (intro mult_nonneg_nonneg) simp_all
  moreover have "2 * pi * (q - of_int \<lfloor>q\<rfloor>) < 2 * pi * 1"
  proof (intro mult_strict_left_mono)
    show "q - real_of_int \<lfloor>q\<rfloor> < 1" using fl(2) by linarith
    show "0 < 2 * pi" by simp
  qed
  moreover have "normalize_angle a = 2 * pi * (q - of_int \<lfloor>q\<rfloor>)"
    using False by (simp add: normalize_angle_def q_def[symmetric] right_diff_distrib) (simp add: q_def)
  ultimately show ?thesis by simp
qed

lemma collect_concat: "concat (collect P cur ns) = cur @ filter P ns"
  by (induction ns arbitrary: cur) auto

lemma collect_runs_concat:
  "concat (collect_runs d [nm]) = filter (\<lambda>n. gate_name (op n) = nm) (op_nodes d)"
  by (simp add: collect_runs_def collect_concat)

lemma for_each_append:
  "for_each body (xs @ ys) st =
     (case for_each body xs st of Inl e \<Rightarrow> Inl e | Inr st' \<Rightarrow> for_each body ys st')"
  by (induction xs arbitrary: st) (auto split: sum.splits)

lemma for_each_concat: "for_each (for_each body) rs st = for_each body (concat rs) st"
  by (induction rs arbitrary: st) (auto simp: for_each_append split: sum.splits)




subsection \<open>The folding pass\<close>


lemma fst_instr_of [simp]: "fst (instr_of n) = op n"
  by (simp add: instr_of_def)









lemma printed_number_of_nat: "n \<le> 2 ^ 53 \<Longrightarrow> printed_number (of_nat n)"
  by (simp add: printed_number_def float64_of_nat)



lemma next_odd_smallest:
  "odd (next_odd_if_not_odd v) \<and> \<lceil>v\<rceil> \<le> next_odd_if_not_odd v \<and>
   (\<forall>m. odd m \<and> \<lceil>v\<rceil> \<le> m \<longrightarrow> next_odd_if_not_odd v \<le> m)"
  unfolding next_odd_if_not_odd_def by presburger

text \<open>
  Claim C5. The claim gives the number of occurrences to fold as
  \<open>floor(N \<times> (scale_factor - 1) / (odd_fold_factor - 1))\<close>. The pass computes the product and
  the quotient in double precision: for 25 occurrences and scale factor 5.56 the odd fold
  factor is 7, the product \<open>25 \<times> 4.56\<close> rounds to 113.99999999999999, and the pass folds 18
  occurrences, where the formula gives 19. The other parts of the claim hold: the odd fold
  factor is the smallest odd integer from \<open>ceil(scale_factor)\<close> on (\<open>next_odd_smallest\<close>),
  and the selection has as many indices as the pass computes, pairwise distinct and below
  \<open>N\<close> (\<open>num_to_fold_bounds\<close>, \<open>choice_without_replacement_props\<close>).
\<close>

theorem num_to_fold_float_rounding:
  "next_odd_if_not_odd (float64 (139 / 25)) = 7 \<and>
   num_2q_gates_to_be_folded 25 (139 / 25) 7 = Inr 18 \<and>
   \<lfloor>(25 :: real) * (139 / 25 - 1) / (7 - 1)\<rfloor> = 19"
proof -
  have s: "float64 (139 / 25) = 6260003482044989 / 1125899906842624"
    using float64_eval[of 2 "139 / 25"] by (simp add: round_half_even_def)
  have x: "float64 (114 / 25) = 5134103575202365 / 1125899906842624"
    using float64_eval[of 2 "114 / 25"] by (simp add: round_half_even_def)
  have n: "float64 25 = 25" using float64_of_nat[of 25] by simp
  have y: "float64 6 = 6" using float64_of_nat[of 6] by simp
  have p: "float64 (128352589380059125 / 1125899906842624) = 8022036836253695 / 70368744177664"
    using float64_eval[of 6 "128352589380059125 / 1125899906842624"]
    by (simp add: round_half_even_def)
  have q: "float64 (8022036836253695 / 422212465065984) = 5348024557502463 / 281474976710656"
    using float64_eval[of 4 "8022036836253695 / 422212465065984"]
    by (simp add: round_half_even_def)
  have 1: "next_odd_if_not_odd (float64 (139 / 25)) = 7"
    by (simp add: s next_odd_if_not_odd_def)
  have 2: "num_2q_gates_to_be_folded 25 (139 / 25) 7 = Inr 18"
    by (simp add: num_2q_gates_to_be_folded_def Let_def x n y p q)
  have 3: "\<lfloor>(25 :: real) * (139 / 25 - 1) / (7 - 1)\<rfloor> = 19" by simp
  show ?thesis using 1 2 3 by simp
qed

text \<open>
  Claim C6. With scale factor 1 the folding pass returns the graph it was given, whatever
  the graph: no node, count or global phase changes, and the generator is not used.
\<close>

theorem Local2qFolding_run_scale_one:
  "scale_factor self = 1 \<Longrightarrow> Local2qFolding_run ri self d g = Inr (d, g)"
  by (simp add: Local2qFolding_run_def)

theorem Local2qFolding_run_scale_one_witness:
  "Local2qFolding_run example_draw \<lparr>scale_factor = 1, folding_gate = ''cx''\<rparr> example_dag 0 =
   Inr (example_dag, 0)"
  using Local2qFolding_run_scale_one[of "\<lparr>scale_factor = 1, folding_gate = ''cx''\<rparr>"]
  by simp

text \<open>
  Claim C8. On a graph with no occurrence of the folding gate, the pass fails with the
  lookup error of the occurrence count when the scale factor is not 1, and with scale
  factor 1 it returns the graph unmodified without the lookup.
\<close>

theorem Local2qFolding_run_absent_gate:
  assumes "filter (\<lambda>n. gate_name (op n) = folding_gate self) (op_nodes d) = []"
  shows "(printed_number (scale_factor self) \<and> scale_factor self \<noteq> 1 \<longrightarrow>
            Local2qFolding_run ri self d g = Inl KeyError) \<and>
         (scale_factor self = 1 \<longrightarrow> Local2qFolding_run ri self d g = Inr (d, g))"
proof -
  have "count_ops d (folding_gate self) = None" using assms by (simp add: count_ops_def)
  moreover have "printed_number (scale_factor self) \<and> scale_factor self \<noteq> 1 \<longrightarrow>
      float64 (scale_factor self) \<noteq> 1"
    by (auto simp: printed_number_def)
  ultimately show ?thesis by (auto simp: Local2qFolding_run_def)
qed

theorem Local2qFolding_run_absent_gate_witness:
  "Local2qFolding_run example_draw \<lparr>scale_factor = 2, folding_gate = ''cz''\<rparr> example_dag 0 =
     Inl KeyError \<and>
   Local2qFolding_run example_draw \<lparr>scale_factor = 1, folding_gate = ''cz''\<rparr> example_dag 0 =
     Inr (example_dag, 0)"
proof -
  have p: "printed_number 2" using printed_number_of_nat[of 2] by simp
  have f: "filter (\<lambda>n. gate_name (op n) = ''cz'') (op_nodes example_dag) = []"
    by (simp add: example_dag_def)
  show ?thesis
    using Local2qFolding_run_absent_gate[of "\<lparr>scale_factor = 2, folding_gate = ''cz''\<rparr>" example_dag example_draw 0]
      Local2qFolding_run_absent_gate[of "\<lparr>scale_factor = 1, folding_gate = ''cz''\<rparr>" example_dag example_draw 0]
      p f by simp
qed



subsection \<open>The twirl equivalence search\<close>

lemma transpose4:
  "transpose [[a0, a1, a2, a3], [b0, b1, b2, b3], [c0, c1, c2, c3], [d0, d1, d2, d3]] =
   [[a0, b0, c0, d0], [a1, b1, c1, d1], [a2, b2, c2, d2], [a3, b3, c3, d3]]"
  by (simp add: transpose.simps)

lemma mat_mul4:
  "mat_mul [[x00, x01, x02, x03], [x10, x11, x12, x13], [x20, x21, x22, x23], [x30, x31, x32, x33]]
     [[a0, a1, a2, a3], [b0, b1, b2, b3], [c0, c1, c2, c3], [d0, d1, d2, d3]] =
   [[x00 * a0 + x01 * b0 + x02 * c0 + x03 * d0, x00 * a1 + x01 * b1 + x02 * c1 + x03 * d1,
     x00 * a2 + x01 * b2 + x02 * c2 + x03 * d2, x00 * a3 + x01 * b3 + x02 * c3 + x03 * d3],
    [x10 * a0 + x11 * b0 + x12 * c0 + x13 * d0, x10 * a1 + x11 * b1 + x12 * c1 + x13 * d1,
     x10 * a2 + x11 * b2 + x12 * c2 + x13 * d2, x10 * a3 + x11 * b3 + x12 * c3 + x13 * d3],
    [x20 * a0 + x21 * b0 + x22 * c0 + x23 * d0, x20 * a1 + x21 * b1 + x22 * c1 + x23 * d1,
     x20 * a2 + x21 * b2 + x22 * c2 + x23 * d2, x20 * a3 + x21 * b3 + x22 * c3 + x23 * d3],
    [x30 * a0 + x31 * b0 + x32 * c0 + x33 * d0, x30 * a1 + x31 * b1 + x32 * c1 + x33 * d1,
     x30 * a2 + x31 * b2 + x32 * c2 + x33 * d2, x30 * a3 + x31 * b3 + x32 * c3 + x33 * d3]]"
  by (simp add: mat_mul_def row_times_def transpose4)

lemma instruction_matrix_pauli:
  "instruction_matrix (IGate, [0]) = identity4"
  "instruction_matrix (IGate, [Suc 0]) = identity4"
  "instruction_matrix (ZGate, [0]) = [[1, 0, 0, 0], [0, - 1, 0, 0], [0, 0, 1, 0], [0, 0, 0, - 1]]"
  "instruction_matrix (ZGate, [Suc 0]) = [[1, 0, 0, 0], [0, 1, 0, 0], [0, 0, - 1, 0], [0, 0, 0, - 1]]"
  "instruction_matrix (XGate, [0]) = [[0, 1, 0, 0], [1, 0, 0, 0], [0, 0, 0, 1], [0, 0, 1, 0]]"
  "instruction_matrix (XGate, [Suc 0]) = [[0, 0, 1, 0], [0, 0, 0, 1], [1, 0, 0, 0], [0, 1, 0, 0]]"
  "instruction_matrix (YGate, [0]) = [[0, - \<i>, 0, 0], [\<i>, 0, 0, 0], [0, 0, 0, - \<i>], [0, 0, \<i>, 0]]"
  "instruction_matrix (YGate, [Suc 0]) = [[0, 0, - \<i>, 0], [0, 0, 0, - \<i>], [\<i>, 0, 0, 0], [0, \<i>, 0, 0]]"
  by (simp_all add: instruction_matrix_def kron_def identity4_def)

lemma instruction_matrix_2q: "instruction_matrix (g, [0, Suc 0]) = to_matrix g"
  by (simp add: instruction_matrix_def)

lemma sqrt8_bounds: "2 < sqrt 8" "sqrt 8 < 3"
  using real_sqrt_less_mono[of 4 8] real_sqrt_less_mono[of 8 9] real_sqrt_abs[of 2]
    real_sqrt_abs[of 3] by simp_all

lemma phase_of_norm_values:
  "phase_of_norm 0 = Some 0" "phase_of_norm 4 = Some pi" "phase_of_norm (sqrt 8) = None"
  using sqrt8_bounds by (simp_all add: phase_of_norm_def)

lemma normalize_angle_values: "normalize_angle 0 = 0" "normalize_angle pi = pi"
  by (simp_all add: normalize_angle_def)

lemmas twirl_eval =
  twirled_circuit_def append_gate_def QuantumCircuit2_def from_circuit_def
  instruction_matrix_pauli instruction_matrix_2q identity4_def mat_mul4 smult_def

lemmas twirl_step_eval =
  twirl_step_def Let_def twirl_eval mat_sub_def frobenius_norm_def cmod_power2 cmod_def
  phase_of_norm_values normalize_angle_values allclose_def

lemma twirling_sets_cx:
  "generate_pauli_twirling_sets ''cx'' = Inr
    [((IGate, IGate, IGate, IGate), 0),
      ((IGate, ZGate, ZGate, ZGate), 0),
      ((IGate, XGate, IGate, XGate), 0),
      ((IGate, YGate, ZGate, YGate), 0),
      ((ZGate, IGate, ZGate, IGate), 0),
      ((ZGate, ZGate, IGate, ZGate), 0),
      ((ZGate, XGate, ZGate, XGate), 0),
      ((ZGate, YGate, IGate, YGate), 0),
      ((XGate, IGate, XGate, XGate), 0),
      ((XGate, ZGate, YGate, YGate), pi),
      ((XGate, XGate, XGate, IGate), 0),
      ((XGate, YGate, YGate, ZGate), 0),
      ((YGate, IGate, YGate, XGate), 0),
      ((YGate, ZGate, XGate, YGate), 0),
      ((YGate, XGate, YGate, IGate), 0),
      ((YGate, YGate, XGate, ZGate), pi)]"
  by (simp add: generate_pauli_twirling_sets_def two_qubit_gates_def operator_list_def
      twirl_step_eval)

lemma twirling_sets_cz:
  "generate_pauli_twirling_sets ''cz'' = Inr
    [((IGate, IGate, IGate, IGate), 0),
      ((IGate, ZGate, IGate, ZGate), 0),
      ((IGate, XGate, ZGate, XGate), 0),
      ((IGate, YGate, ZGate, YGate), 0),
      ((ZGate, IGate, ZGate, IGate), 0),
      ((ZGate, ZGate, ZGate, ZGate), 0),
      ((ZGate, XGate, IGate, XGate), 0),
      ((ZGate, YGate, IGate, YGate), 0),
      ((XGate, IGate, XGate, ZGate), 0),
      ((XGate, ZGate, XGate, IGate), 0),
      ((XGate, XGate, YGate, YGate), 0),
      ((XGate, YGate, YGate, XGate), pi),
      ((YGate, IGate, YGate, ZGate), 0),
      ((YGate, ZGate, YGate, IGate), 0),
      ((YGate, XGate, XGate, YGate), pi),
      ((YGate, YGate, XGate, XGate), 0)]"
  by (simp add: generate_pauli_twirling_sets_def two_qubit_gates_def operator_list_def
      twirl_step_eval)

lemma twirling_sets_ecr:
  "generate_pauli_twirling_sets ''ecr'' = Inr
    [((IGate, IGate, IGate, IGate), 0),
      ((IGate, ZGate, ZGate, YGate), 0),
      ((IGate, XGate, IGate, XGate), 0),
      ((IGate, YGate, ZGate, ZGate), pi),
      ((ZGate, IGate, ZGate, IGate), pi),
      ((ZGate, ZGate, IGate, YGate), pi),
      ((ZGate, XGate, ZGate, XGate), pi),
      ((ZGate, YGate, IGate, ZGate), 0),
      ((XGate, IGate, YGate, XGate), pi),
      ((XGate, ZGate, XGate, ZGate), 0),
      ((XGate, XGate, YGate, IGate), pi),
      ((XGate, YGate, XGate, YGate), 0),
      ((YGate, IGate, XGate, XGate), pi),
      ((YGate, ZGate, YGate, ZGate), pi),
      ((YGate, XGate, XGate, IGate), pi),
      ((YGate, YGate, YGate, YGate), pi)]"
  by (simp add: generate_pauli_twirling_sets_def two_qubit_gates_def operator_list_def
      twirl_step_eval)

lemma equivalence_entries_cx:
  "list_all (equivalence_entry CXGate)
    [((IGate, IGate, IGate, IGate), 0),
      ((IGate, ZGate, ZGate, ZGate), 0),
      ((IGate, XGate, IGate, XGate), 0),
      ((IGate, YGate, ZGate, YGate), 0),
      ((ZGate, IGate, ZGate, IGate), 0),
      ((ZGate, ZGate, IGate, ZGate), 0),
      ((ZGate, XGate, ZGate, XGate), 0),
      ((ZGate, YGate, IGate, YGate), 0),
      ((XGate, IGate, XGate, XGate), 0),
      ((XGate, ZGate, YGate, YGate), pi),
      ((XGate, XGate, XGate, IGate), 0),
      ((XGate, YGate, YGate, ZGate), 0),
      ((YGate, IGate, YGate, XGate), 0),
      ((YGate, ZGate, XGate, YGate), 0),
      ((YGate, XGate, YGate, IGate), 0),
      ((YGate, YGate, XGate, ZGate), pi)]"
  by (simp add: equivalence_entry_def twirl_eval complex_eq_iff)

lemma equivalence_entries_cz:
  "list_all (equivalence_entry CZGate)
    [((IGate, IGate, IGate, IGate), 0),
      ((IGate, ZGate, IGate, ZGate), 0),
      ((IGate, XGate, ZGate, XGate), 0),
      ((IGate, YGate, ZGate, YGate), 0),
      ((ZGate, IGate, ZGate, IGate), 0),
      ((ZGate, ZGate, ZGate, ZGate), 0),
      ((ZGate, XGate, IGate, XGate), 0),
      ((ZGate, YGate, IGate, YGate), 0),
      ((XGate, IGate, XGate, ZGate), 0),
      ((XGate, ZGate, XGate, IGate), 0),
      ((XGate, XGate, YGate, YGate), 0),
      ((XGate, YGate, YGate, XGate), pi),
      ((YGate, IGate, YGate, ZGate), 0),
      ((YGate, ZGate, YGate, IGate), 0),
      ((YGate, XGate, XGate, YGate), pi),
      ((YGate, YGate, XGate, XGate), 0)]"
  by (simp add: equivalence_entry_def twirl_eval complex_eq_iff)

lemma equivalence_entries_ecr:
  "list_all (equivalence_entry ECRGate)
    [((IGate, IGate, IGate, IGate), 0),
      ((IGate, ZGate, ZGate, YGate), 0),
      ((IGate, XGate, IGate, XGate), 0),
      ((IGate, YGate, ZGate, ZGate), pi),
      ((ZGate, IGate, ZGate, IGate), pi),
      ((ZGate, ZGate, IGate, YGate), pi),
      ((ZGate, XGate, ZGate, XGate), pi),
      ((ZGate, YGate, IGate, ZGate), 0),
      ((XGate, IGate, YGate, XGate), pi),
      ((XGate, ZGate, XGate, ZGate), 0),
      ((XGate, XGate, YGate, IGate), pi),
      ((XGate, YGate, XGate, YGate), 0),
      ((YGate, IGate, XGate, XGate), pi),
      ((YGate, ZGate, YGate, ZGate), pi),
      ((YGate, XGate, XGate, IGate), pi),
      ((YGate, YGate, YGate, YGate), pi)]"
  by (simp add: equivalence_entry_def twirl_eval complex_eq_iff)



text \<open>
  Claim C1. For each of the gate identifiers cx, cz and ecr the search succeeds, and every
  entry (quadruple, phase) of the Twirling Set it returns is an equivalence: the phase is 0
  or \<open>\<pi>\<close>, and the matrix of the sequence quadruple[0] on the control, quadruple[1] on the
  target, the gate, quadruple[2] on the control, quadruple[3] on the target, multiplied by
  \<open>e\<^sup>i\<^sup>\<phi>\<close>, equals the matrix of the gate (exactly, hence within every tolerance).
\<close>

theorem twirling_sets_equivalent:
  assumes "nm \<in> {''cx'', ''cz'', ''ecr''}"
  shows "\<exists>g ts. map_of two_qubit_gates nm = Some g \<and>
           generate_pauli_twirling_sets nm = Inr ts \<and>
           (\<forall>e\<in>set ts. equivalence_entry g e)"
proof -
  consider "nm = ''cx''" | "nm = ''cz''" | "nm = ''ecr''" using assms by blast
  then show ?thesis
  proof cases
    case 1
    have "map_of two_qubit_gates nm = Some CXGate" by (simp add: 1 two_qubit_gates_def)
    then show ?thesis
      using twirling_sets_cx equivalence_entries_cx unfolding 1 list_all_iff by blast
  next
    case 2
    have "map_of two_qubit_gates nm = Some CZGate" by (simp add: 2 two_qubit_gates_def)
    then show ?thesis
      using twirling_sets_cz equivalence_entries_cz unfolding 2 list_all_iff by blast
  next
    case 3
    have "map_of two_qubit_gates nm = Some ECRGate" by (simp add: 3 two_qubit_gates_def)
    then show ?thesis
      using twirling_sets_ecr equivalence_entries_ecr unfolding 3 list_all_iff by blast
  qed
qed

theorem twirling_sets_equivalent_witness:
  "smult (cis pi) (from_circuit (twirled_circuit CXGate (XGate, ZGate, YGate, YGate))) =
   to_matrix CXGate"
proof -
  obtain g ts where r: "map_of two_qubit_gates ''cx'' = Some g"
    "generate_pauli_twirling_sets ''cx'' = Inr ts" "\<forall>e\<in>set ts. equivalence_entry g e"
    using twirling_sets_equivalent[of "''cx''"] by auto
  have g: "g = CXGate" using r(1) by (simp add: two_qubit_gates_def)
  have "((XGate, ZGate, YGate, YGate), pi) \<in> set ts" using r(2) by (auto simp: twirling_sets_cx)
  then have "equivalence_entry CXGate ((XGate, ZGate, YGate, YGate), pi)" using r(3) g by blast
  then show ?thesis by (simp add: equivalence_entry_def)
qed

text \<open>
  Claim C2. The Twirling Set of cx has exactly 16 entries, the Twirling Set of cz has exactly
  16 entries, and the Twirling Set of ecr is not empty.
\<close>

theorem twirling_sets_size:
  "(\<exists>ts. generate_pauli_twirling_sets ''cx'' = Inr ts \<and> length ts = 16) \<and>
   (\<exists>ts. generate_pauli_twirling_sets ''cz'' = Inr ts \<and> length ts = 16) \<and>
   (\<exists>ts. generate_pauli_twirling_sets ''ecr'' = Inr ts \<and> ts \<noteq> [])"
  by (simp add: twirling_sets_cx twirling_sets_cz twirling_sets_ecr)

theorem twirling_sets_size_witness:
  "generate_pauli_twirling_sets ''ecr'' \<noteq> Inr []"
  using twirling_sets_size by auto

subsection \<open>The twirling pass\<close>





lemma PauliTwirling_run_no_occurrence:
  assumes "filter (\<lambda>n. gate_name (op n) = twirling_gate self) (op_nodes d) = []"
  shows "PauliTwirling_run rb self d = Inr (d, self)"
  by (simp add: PauliTwirling_run_def for_each_concat collect_runs_concat assms)

lemma PauliTwirling_init_props:
  assumes "PauliTwirling_init seeded nm seed entropy = Inr self"
  shows "twirling_gate self = nm" "twirling_len self = length (twirling_set self)"
    "generate_pauli_twirling_sets nm = Inr (twirling_set self)"
    "rng self = default_rng seeded seed entropy"
  using assms by (auto simp: PauliTwirling_init_def split: sum.splits)





text \<open>
  Claim C10. On a graph with no occurrence of the twirling gate the twirling pass returns
  the graph unchanged, and the pass with its generator unchanged: nothing is substituted,
  nothing is drawn, and the global phase stays.
\<close>

theorem PauliTwirling_run_without_occurrence:
  assumes "filter (\<lambda>n. gate_name (op n) = twirling_gate self) (op_nodes d) = []"
  shows "PauliTwirling_run rb self d = Inr (d, self)"
  using assms by (rule PauliTwirling_run_no_occurrence)

theorem PauliTwirling_run_without_occurrence_witness:
  "\<exists>self. PauliTwirling_init (\<lambda>s. s) ''cz'' (Some 8) 0 = Inr self \<and>
          PauliTwirling_run example_draw self example_dag = Inr (example_dag, self)"
proof -
  obtain self where 1: "PauliTwirling_init (\<lambda>s. s) ''cz'' (Some 8) 0 = Inr (self :: nat PauliTwirling)"
    by (simp add: PauliTwirling_init_def twirling_sets_cz)
  have "twirling_gate self = ''cz''" using PauliTwirling_init_props(1)[OF 1] .
  then have "filter (\<lambda>n. gate_name (op n) = twirling_gate self) (op_nodes example_dag) = []"
    by (simp add: example_dag_def)
  then have "PauliTwirling_run example_draw self example_dag = Inr (example_dag, self)"
    by (rule PauliTwirling_run_without_occurrence)
  then show ?thesis using 1 by blast
qed

end
